theory Spec2Isabelle
  imports Main "HOL-Library.Sublist"
begin

section \<open>The filter registry of \<open>filters/filters.go\<close>\<close>

text \<open>
  The package declares the identifier type \<open>Filter\<close> (a Go \<open>int\<close>), the ordered
  list of canonical names \<open>FilterPluginNames\<close>, the two conversions between
  identifiers and names, and the table \<open>FiltersList\<close> from identifiers to plugins.
  Every identifier is modelled as a mathematical integer: the code only compares
  identifiers and uses them as indices and keys, it never computes with them, so
  no operation can leave the range of a machine \<open>int\<close>.
\<close>

subsection \<open>Identifiers and names\<close>

type_synonym Filter = int

definition NopFilter :: Filter where
  "NopFilter = 0"

definition SampleFilter :: Filter where
  "SampleFilter = 1"

definition FilterPluginNames :: "string list" where
  "FilterPluginNames = [''nop'', ''sample'']"

text \<open>
  What a Go run-time check can raise in this package: an index outside a slice,
  and an assignment to an entry of a \<open>nil\<close> map.
\<close>

datatype panic = IndexOutOfRange | NilMapAssignment

text \<open>
  The value built by \<open>fmt.Errorf\<close>: an error whose method \<open>Error()\<close> gives the
  formatted message.
\<close>

datatype error = Errorf (Error: string)

text \<open>Indexing a slice, \<open>xs[i]\<close>: Go panics when \<open>i\<close> is out of range.\<close>

definition index :: "'a list \<Rightarrow> int \<Rightarrow> panic + 'a" where
  "index xs i =
     (if 0 \<le> i \<and> i < int (length xs) then Inr (xs ! nat i) else Inl IndexOutOfRange)"

text \<open>
  \<^verbatim>\<open>
  func (filter Filter) String() string {
      if int(filter) < 0 || int(filter) >= len(FilterPluginNames) {
          return "impossible"
      }
      return FilterPluginNames[filter]
  }
  \<close>
  The package variable \<open>FilterPluginNames\<close> that the method reads is the first
  argument \<open>names\<close>; the receiver \<open>filter\<close> is written \<open>filter'\<close>.
\<close>

definition Filter_String :: "string list \<Rightarrow> Filter \<Rightarrow> panic + string" where
  "Filter_String names filter' =
     (if filter' < 0 \<or> filter' \<ge> int (length names) then Inr ''impossible''
      else index names filter')"

text \<open>
  \<^verbatim>\<open>
  func FilterFromName(name string) (Filter, error) {
      for i, pluginname := range FilterPluginNames {
          if name == pluginname {
              return Filter(i), nil
          }
      }
      return -1, fmt.Errorf("No filter named %s", name)
  }
  \<close>
  The \<open>range\<close> loop is a recursion over the rest of the slice, with the current
  index \<open>i\<close>. The result is the pair the function returns; the \<open>nil\<close> error is
  \<open>None\<close>. The verb \<open>%s\<close> writes the bytes of \<open>name\<close> as they are.
\<close>

fun FilterFromName_loop :: "string \<Rightarrow> int \<Rightarrow> string list \<Rightarrow> Filter \<times> error option" where
  "FilterFromName_loop name i [] = (- 1, Some (Errorf (''No filter named '' @ name)))"
| "FilterFromName_loop name i (pluginname # rest) =
     (if name = pluginname then (i, None) else FilterFromName_loop name (i + 1) rest)"

definition FilterFromName :: "string list \<Rightarrow> string \<Rightarrow> Filter \<times> error option" where
  "FilterFromName names name = FilterFromName_loop name 0 names"

subsection \<open>The registry\<close>

text \<open>
  \<open>FilterPlugin\<close> is an interface type (the methods \<open>New\<close>, \<open>Filter\<close>, \<open>Name\<close> and
  \<open>Type\<close>): a value of it is \<open>nil\<close> (\<open>None\<close>) or a plugin. The registry stores
  and returns plugins and never calls their methods, and the implementations
  are outside this package; \<open>'p\<close> is their type.
\<close>

type_synonym 'p FilterPlugin = "'p option"

text \<open>
  \<^verbatim>\<open>
  type FiltersList struct {
      filters map[Filter]FilterPlugin
  }
  \<close>
  A Go map is \<open>nil\<close> (\<open>None\<close>) until \<open>make\<close> allocates it. An allocated map is a
  finite table from keys to interface values, and a key can be bound to the
  \<open>nil\<close> interface.
\<close>

record 'p FiltersList =
  filters :: "(Filter \<rightharpoonup> 'p FilterPlugin) option"

text \<open>
  \<^verbatim>\<open>
  func (filters FiltersList) Register(filter Filter, plugin FilterPlugin) {
      filters.filters[filter] = plugin
  }
  \<close>
  The receiver is a copy of the struct, but the copy refers to the same map, so
  the assignment is seen by every holder of the registry: the model returns the
  registry with the updated map. Assigning to an entry of a \<open>nil\<close> map panics.
\<close>

definition Register ::
  "'p FiltersList \<Rightarrow> Filter \<Rightarrow> 'p FilterPlugin \<Rightarrow> panic + 'p FiltersList" where
  "Register fl filter' plugin =
     (case filters fl of
        None \<Rightarrow> Inl NilMapAssignment
      | Some m \<Rightarrow> Inr (fl\<lparr>filters := Some (m(filter' \<mapsto> plugin))\<rparr>))"

text \<open>
  \<^verbatim>\<open>
  func (filters FiltersList) Get(filter Filter) FilterPlugin {
      return filters.filters[filter]
  }
  \<close>
  Reading a map never panics: a key that is not bound, and every key of a \<open>nil\<close>
  map, gives the zero value of the element type, the \<open>nil\<close> interface.
\<close>

definition Get :: "'p FiltersList \<Rightarrow> Filter \<Rightarrow> 'p FilterPlugin" where
  "Get fl filter' =
     (case filters fl of
        None \<Rightarrow> None
      | Some m \<Rightarrow> (case m filter' of None \<Rightarrow> None | Some plugin \<Rightarrow> plugin))"

text \<open>
  \<^verbatim>\<open>
  var Filters FiltersList

  func init() {
      Filters = FiltersList{}
      Filters.filters = make(map[Filter]FilterPlugin)
  }
  \<close>
  The value of the package variable \<open>Filters\<close> once \<open>init\<close> has run.
\<close>

definition init :: "unit \<Rightarrow> 'p FiltersList" where
  "init _ = (\<lparr>filters = None\<rparr>)\<lparr>filters := Some Map.empty\<rparr>"

text \<open>
  A history of the registry: the calls of \<open>Register\<close> made on it, in order, each on
  the state the one before left. A panic ends the history.
\<close>

fun Register_calls ::
  "'p FiltersList \<Rightarrow> (Filter \<times> 'p FilterPlugin) list \<Rightarrow> panic + 'p FiltersList" where
  "Register_calls fl [] = Inr fl"
| "Register_calls fl ((filter', plugin) # calls) =
     (case Register fl filter' plugin of
        Inl p \<Rightarrow> Inl p
      | Inr fl' \<Rightarrow> Register_calls fl' calls)"

section \<open>Properties of the conversions\<close>

subsection \<open>The scan of \<open>FilterFromName\<close>\<close>

text \<open>
  When the name occurs in the rest of the slice, the loop returns the current
  index plus the number of entries before the first occurrence.
\<close>

lemma FilterFromName_loop_found:
  "name \<in> set names \<Longrightarrow>
   FilterFromName_loop name i names =
     (i + int (length (takeWhile (\<lambda>p. p \<noteq> name) names)), None)"
  by (induction names arbitrary: i) auto

lemma FilterFromName_loop_absent:
  "name \<notin> set names \<Longrightarrow>
   FilterFromName_loop name i names = (- 1, Some (Errorf (''No filter named '' @ name)))"
  by (induction names arbitrary: i) auto

lemma FilterFromName_absent:
  "name \<notin> set names \<Longrightarrow>
   FilterFromName names name = (- 1, Some (Errorf (''No filter named '' @ name)))"
  by (simp add: FilterFromName_def FilterFromName_loop_absent)

text \<open>The position of the first occurrence of an element of a list.\<close>

lemma first_occurrence:
  assumes "x \<in> set xs"
  defines "k \<equiv> length (takeWhile (\<lambda>p. p \<noteq> x) xs)"
  shows "k < length xs" and "xs ! k = x" and "\<forall>j<k. xs ! j \<noteq> x"
proof -
  show less: "k < length xs"
    unfolding k_def using assms(1) by (induction xs) auto
  from nth_length_takeWhile [of "\<lambda>p. p \<noteq> x" xs] less show "xs ! k = x"
    unfolding k_def by simp
  show "\<forall>j<k. xs ! j \<noteq> x"
  proof (intro allI impI)
    fix j assume "j < k"
    then have j: "j < length (takeWhile (\<lambda>p. p \<noteq> x) xs)" by (simp add: k_def)
    then have "takeWhile (\<lambda>p. p \<noteq> x) xs ! j \<in> set (takeWhile (\<lambda>p. p \<noteq> x) xs)"
      by (rule nth_mem)
    then have "takeWhile (\<lambda>p. p \<noteq> x) xs ! j \<noteq> x" by (auto dest: set_takeWhileD)
    with j show "xs ! j \<noteq> x" by (simp add: takeWhile_nth)
  qed
qed

text \<open>In a list without duplicates the first occurrence of the entry at \<open>k\<close> is \<open>k\<close>.\<close>

lemma first_occurrence_distinct:
  assumes "distinct xs" and "k < length xs"
  shows "length (takeWhile (\<lambda>p. p \<noteq> xs ! k) xs) = k"
proof -
  let ?k' = "length (takeWhile (\<lambda>p. p \<noteq> xs ! k) xs)"
  have mem: "xs ! k \<in> set xs" using assms(2) by simp
  from first_occurrence [OF mem] have "?k' < length xs" and "xs ! ?k' = xs ! k"
    by simp_all
  with assms show ?thesis by (simp add: nth_eq_iff_index_eq)
qed

lemma FilterFromName_nth:
  assumes "distinct names" and "0 \<le> i" and "i < int (length names)"
  shows "FilterFromName names (names ! nat i) = (i, None)"
proof -
  have k: "nat i < length names" using assms(2,3) by simp
  then have "names ! nat i \<in> set names" by simp
  then have "FilterFromName names (names ! nat i) =
      (int (length (takeWhile (\<lambda>p. p \<noteq> names ! nat i) names)), None)"
    by (simp add: FilterFromName_def FilterFromName_loop_found)
  also have "length (takeWhile (\<lambda>p. p \<noteq> names ! nat i) names) = nat i"
    using assms(1) k by (rule first_occurrence_distinct)
  finally show ?thesis using assms(2) by simp
qed

subsection \<open>The method \<open>String\<close>\<close>

lemma Filter_String_valid:
  "0 \<le> i \<Longrightarrow> i < int (length names) \<Longrightarrow> Filter_String names i = Inr (names ! nat i)"
  by (simp add: Filter_String_def index_def)

lemma Filter_String_invalid:
  "i < 0 \<or> int (length names) \<le> i \<Longrightarrow> Filter_String names i = Inr ''impossible''"
  by (auto simp: Filter_String_def)

lemma Filter_String_returns: "\<exists>s. Filter_String names i = Inr s"
  by (simp add: Filter_String_def index_def)

lemma distinct_FilterPluginNames: "distinct FilterPluginNames"
  by (simp add: FilterPluginNames_def)

lemma length_FilterPluginNames: "length FilterPluginNames = 2"
  by (simp add: FilterPluginNames_def)

lemma impossible_no_name: "''impossible'' \<notin> set FilterPluginNames"
  by (simp add: FilterPluginNames_def)

lemma constants_valid:
  "Filter_String FilterPluginNames NopFilter = Inr ''nop''"
  "Filter_String FilterPluginNames SampleFilter = Inr ''sample''"
  by (simp_all add: Filter_String_def index_def FilterPluginNames_def NopFilter_def
      SampleFilter_def)

section \<open>Properties of the registry\<close>

lemma filters_init: "filters (init u) = Some Map.empty"
  by (simp add: init_def)

lemma Register_allocated:
  "filters fl = Some m \<Longrightarrow> Register fl i p = Inr (fl\<lparr>filters := Some (m(i \<mapsto> p))\<rparr>)"
  by (simp add: Register_def)

text \<open>
  On a \<open>FiltersList\<close> whose map was never allocated (the zero value of the struct,
  which is not a state of \<open>Filters\<close> after \<open>init\<close>), \<open>Register\<close> panics and \<open>Get\<close>
  gives \<open>nil\<close>.
\<close>

lemma Register_nil_map: "filters fl = None \<Longrightarrow> Register fl i p = Inl NilMapAssignment"
  by (simp add: Register_def)

lemma Get_nil_map: "filters fl = None \<Longrightarrow> Get fl i = None"
  by (simp add: Get_def)

lemma Get_init: "Get (init u) i = None"
  by (simp add: Get_def init_def)

text \<open>One call of \<open>Register\<close> on an allocated registry: it returns, and what it changes.\<close>

lemma Register_Get:
  assumes "filters fl \<noteq> None"
  shows "\<exists>fl'. Register fl i p = Inr fl' \<and> filters fl' \<noteq> None \<and>
           Get fl' i = p \<and> (\<forall>j. j \<noteq> i \<longrightarrow> Get fl' j = Get fl j)"
proof -
  from assms obtain m where m: "filters fl = Some m" by blast
  let ?fl = "fl\<lparr>filters := Some (m(i \<mapsto> p))\<rparr>"
  have "Register fl i p = Inr ?fl" using m by (rule Register_allocated)
  moreover have "filters ?fl \<noteq> None" by simp
  moreover have "Get ?fl i = p" by (simp add: Get_def)
  moreover have "\<forall>j. j \<noteq> i \<longrightarrow> Get ?fl j = Get fl j" using m by (simp add: Get_def)
  ultimately show ?thesis by blast
qed

text \<open>A history on an allocated registry never panics and leaves every other key alone.\<close>

lemma Register_calls_Get:
  "filters fl \<noteq> None \<Longrightarrow>
   \<exists>fl'. Register_calls fl calls = Inr fl' \<and> filters fl' \<noteq> None \<and>
        (\<forall>i. i \<notin> fst ` set calls \<longrightarrow> Get fl' i = Get fl i)"
proof (induction calls arbitrary: fl)
  case Nil
  then show ?case by simp
next
  case (Cons c calls)
  obtain i p where c: "c = (i, p)" by (cases c)
  from Register_Get [OF Cons.prems, of i p] obtain fl1 where
    fl1: "Register fl i p = Inr fl1" "filters fl1 \<noteq> None"
      "\<forall>j. j \<noteq> i \<longrightarrow> Get fl1 j = Get fl j"
    by blast
  from Cons.IH [OF fl1(2)] obtain fl2 where
    fl2: "Register_calls fl1 calls = Inr fl2" "filters fl2 \<noteq> None"
      "\<forall>j. j \<notin> fst ` set calls \<longrightarrow> Get fl2 j = Get fl1 j"
    by blast
  have "Register_calls fl (c # calls) = Inr fl2" using c fl1(1) fl2(1) by simp
  moreover have "\<forall>j. j \<notin> fst ` set (c # calls) \<longrightarrow> Get fl2 j = Get fl j"
    using c fl1(3) fl2(3) by auto
  ultimately show ?case using fl2(2) by blast
qed

text \<open>Every state the package variable \<open>Filters\<close> can reach has its map allocated.\<close>

lemma Filters_allocated:
  "\<exists>fl. Register_calls (init u) calls = Inr fl \<and> filters fl \<noteq> None"
  using Register_calls_Get [of "init u" calls] by (auto simp: filters_init)

section \<open>The specified properties\<close>

text \<open>
  C1. For every valid identifier \<open>i\<close>, that is \<open>0 \<le> i < len(FilterPluginNames)\<close>,
  \<open>String\<close> returns a name and \<open>FilterFromName\<close> of that name returns \<open>i\<close> with a
  \<open>nil\<close> error.
\<close>

theorem FilterFromName_String_roundtrip:
  assumes "0 \<le> i" and "i < int (length FilterPluginNames)"
  shows "\<exists>s. Filter_String FilterPluginNames i = Inr s \<and>
           FilterFromName FilterPluginNames s = (i, None)"
proof -
  have "Filter_String FilterPluginNames i = Inr (FilterPluginNames ! nat i)"
    using assms by (rule Filter_String_valid)
  moreover have "FilterFromName FilterPluginNames (FilterPluginNames ! nat i) = (i, None)"
    using distinct_FilterPluginNames assms by (rule FilterFromName_nth)
  ultimately show ?thesis by blast
qed

theorem FilterFromName_String_roundtrip_witness:
  "(0::int) \<le> SampleFilter \<and> SampleFilter < int (length FilterPluginNames) \<and>
   (\<exists>s. Filter_String FilterPluginNames SampleFilter = Inr s \<and>
        FilterFromName FilterPluginNames s = (SampleFilter, None))"
proof -
  have lo: "0 \<le> SampleFilter"
    by (simp add: SampleFilter_def)
  have hi: "SampleFilter < int (length FilterPluginNames)"
    by (simp add: SampleFilter_def FilterPluginNames_def)
  from lo hi FilterFromName_String_roundtrip [OF lo hi] show ?thesis by blast
qed

text \<open>
  C2. For every name \<open>n\<close> that is not in \<open>FilterPluginNames\<close>, \<open>FilterFromName\<close>
  returns a non-\<open>nil\<close> error whose message is \<open>"No filter named "\<close> followed by
  \<open>n\<close>, so the message contains \<open>n\<close>. No other operation fails: \<open>String\<close> returns a
  string for every identifier, \<open>Register\<close> returns on every registry whose map is
  allocated (every state of \<open>Filters\<close>, by \<open>Filters_allocated\<close>), and \<open>Get\<close>, a
  map read, has no failing branch.
\<close>

theorem FilterFromName_unknown:
  assumes "n \<notin> set FilterPluginNames"
  shows "(\<exists>msg. FilterFromName FilterPluginNames n = (- 1, Some (Errorf msg)) \<and>
            msg = ''No filter named '' @ n \<and> sublist n msg) \<and>
         (\<forall>i. \<exists>s. Filter_String FilterPluginNames i = Inr s) \<and>
         (\<forall>fl i p. filters fl \<noteq> None \<longrightarrow> (\<exists>fl'. Register fl i p = Inr fl'))"
proof (intro conjI allI impI)
  have "sublist n (''No filter named '' @ n)" by (rule sublist_append_leftI)
  with FilterFromName_absent [OF assms]
  show "\<exists>msg. FilterFromName FilterPluginNames n = (- 1, Some (Errorf msg)) \<and>
          msg = ''No filter named '' @ n \<and> sublist n msg"
    by blast
next
  fix i show "\<exists>s. Filter_String FilterPluginNames i = Inr s"
    by (rule Filter_String_returns)
next
  fix fl :: "'a FiltersList" and i p
  assume "filters fl \<noteq> None"
  from Register_Get [OF this, of i p] show "\<exists>fl'. Register fl i p = Inr fl'" by blast
qed

theorem FilterFromName_unknown_witness:
  "''bogus'' \<notin> set FilterPluginNames \<and>
   FilterFromName FilterPluginNames ''bogus'' = (- 1, Some (Errorf ''No filter named bogus'')) \<and>
   sublist ''bogus'' ''No filter named bogus'' \<and>
   filters (init () :: string FiltersList) \<noteq> None \<and>
   (\<exists>fl'. Register (init () :: string FiltersList) NopFilter (Some ''nop plugin'') = Inr fl')"
proof -
  have absent: "''bogus'' \<notin> set FilterPluginNames"
    by (simp add: FilterPluginNames_def)
  have alloc: "filters (init () :: string FiltersList) \<noteq> None"
    by (simp add: filters_init)
  from FilterFromName_unknown [OF absent, where ?'a = string] alloc absent
  show ?thesis by auto
qed

text \<open>
  C3. For every identifier \<open>i\<close> outside \<open>[0, len(FilterPluginNames))\<close>, negative
  ones included, \<open>String\<close> returns \<open>"impossible"\<close>, which is none of the names in
  \<open>FilterPluginNames\<close>; for every \<open>i\<close> inside the range it returns
  \<open>FilterPluginNames[i]\<close>; and it returns a string, without a panic, for every \<open>i\<close>.
\<close>

theorem Filter_String_sentinel:
  "(i < 0 \<or> int (length FilterPluginNames) \<le> i \<longrightarrow>
      Filter_String FilterPluginNames i = Inr ''impossible'') \<and>
   ''impossible'' \<notin> set FilterPluginNames \<and>
   (0 \<le> i \<and> i < int (length FilterPluginNames) \<longrightarrow>
      Filter_String FilterPluginNames i = Inr (FilterPluginNames ! nat i)) \<and>
   (\<exists>s. Filter_String FilterPluginNames i = Inr s)"
  using Filter_String_invalid [of i FilterPluginNames]
    Filter_String_valid [of i FilterPluginNames]
    Filter_String_returns [of FilterPluginNames i] impossible_no_name
  by blast

theorem Filter_String_sentinel_witness:
  "Filter_String FilterPluginNames (- 1) = Inr ''impossible'' \<and>
   Filter_String FilterPluginNames 2 = Inr ''impossible'' \<and>
   Filter_String FilterPluginNames 0 = Inr ''nop'' \<and>
   Filter_String FilterPluginNames 1 = Inr ''sample''"
  using Filter_String_sentinel [of "- 1"] Filter_String_sentinel [of 2]
    Filter_String_sentinel [of 0] Filter_String_sentinel [of 1]
  by (simp add: FilterPluginNames_def)

text \<open>
  C4. On a registry whose map is allocated, \<open>Register(id, A)\<close> followed by
  \<open>Register(id, B)\<close> returns both times, and then \<open>Get(id)\<close> returns \<open>B\<close>: the map
  binds \<open>id\<close> to \<open>B\<close> alone.
\<close>

theorem Register_twice_last_wins:
  assumes "filters fl \<noteq> None"
  shows "\<exists>fl' fl'' m. Register fl i A = Inr fl' \<and> Register fl' i B = Inr fl'' \<and>
           Get fl'' i = B \<and> filters fl'' = Some m \<and> m i = Some B"
proof -
  from assms obtain m where m: "filters fl = Some m" by blast
  let ?fl' = "fl\<lparr>filters := Some (m(i \<mapsto> A))\<rparr>"
  let ?fl'' = "?fl'\<lparr>filters := Some ((m(i \<mapsto> A))(i \<mapsto> B))\<rparr>"
  have "Register fl i A = Inr ?fl'" using m by (rule Register_allocated)
  moreover have "Register ?fl' i B = Inr ?fl''" by (rule Register_allocated) simp
  moreover have "Get ?fl'' i = B" by (simp add: Get_def)
  moreover have "filters ?fl'' = Some ((m(i \<mapsto> A))(i \<mapsto> B))" by simp
  moreover have "((m(i \<mapsto> A))(i \<mapsto> B)) i = Some B" by simp
  ultimately show ?thesis by blast
qed

theorem Register_twice_last_wins_witness:
  "filters (init () :: string FiltersList) \<noteq> None \<and>
   (\<exists>fl' fl'' m. Register (init ()) SampleFilter (Some ''A'') = Inr fl' \<and>
      Register fl' SampleFilter (Some ''B'') = Inr fl'' \<and>
      Get fl'' SampleFilter = Some ''B'' \<and> filters fl'' = Some m \<and>
      m SampleFilter = Some (Some ''B''))"
proof -
  have alloc: "filters (init () :: string FiltersList) \<noteq> None"
    by (simp add: filters_init)
  from alloc Register_twice_last_wins [OF alloc, of SampleFilter "Some ''A''" "Some ''B''"]
  show ?thesis by blast
qed

text \<open>
  C5. After \<open>init\<close> and any calls of \<open>Register\<close> none of which is for the identifier
  \<open>i\<close>, the calls have all returned and \<open>Get(i)\<close> returns \<open>nil\<close>.
\<close>

theorem Get_never_registered:
  assumes "i \<notin> fst ` set calls"
  shows "\<exists>fl. Register_calls (init ()) calls = Inr fl \<and> Get fl i = None"
proof -
  have "filters (init () :: 'a FiltersList) \<noteq> None" by (simp add: filters_init)
  from Register_calls_Get [OF this, of calls] assms show ?thesis
    by (auto simp: Get_init)
qed

theorem Get_never_registered_witness:
  "SampleFilter \<notin> fst ` set [(NopFilter, Some ''nop plugin'')] \<and>
   (\<exists>fl. Register_calls (init ()) [(NopFilter, Some ''nop plugin'')] = Inr fl \<and>
      Get fl SampleFilter = None)"
proof -
  have other: "SampleFilter \<notin> fst ` set [(NopFilter, Some ''nop plugin'')]"
    by (simp add: SampleFilter_def NopFilter_def)
  from other Get_never_registered [OF other] show ?thesis by blast
qed

text \<open>
  C6. On a registry whose map is allocated, \<open>Register(id, p)\<close> returns, and
  \<open>Get(id)\<close> returns \<open>p\<close> right after it and after any later calls of \<open>Register\<close>
  for other identifiers.
\<close>

theorem Get_after_Register:
  assumes "filters fl \<noteq> None" and "i \<notin> fst ` set calls"
  shows "\<exists>fl' fl''. Register fl i p = Inr fl' \<and> Get fl' i = p \<and>
           Register_calls fl' calls = Inr fl'' \<and> Get fl'' i = p"
proof -
  from Register_Get [OF assms(1), of i p] obtain fl' where
    fl': "Register fl i p = Inr fl'" "filters fl' \<noteq> None" "Get fl' i = p"
    by blast
  from Register_calls_Get [OF fl'(2), of calls] assms(2) obtain fl'' where
    "Register_calls fl' calls = Inr fl''" "Get fl'' i = Get fl' i"
    by blast
  with fl' show ?thesis by auto
qed

theorem Get_after_Register_witness:
  "filters (init () :: string FiltersList) \<noteq> None \<and>
   NopFilter \<notin> fst ` set [(SampleFilter, Some ''sample plugin'')] \<and>
   (\<exists>fl' fl''. Register (init ()) NopFilter (Some ''nop plugin'') = Inr fl' \<and>
      Get fl' NopFilter = Some ''nop plugin'' \<and>
      Register_calls fl' [(SampleFilter, Some ''sample plugin'')] = Inr fl'' \<and>
      Get fl'' NopFilter = Some ''nop plugin'')"
proof -
  have alloc: "filters (init () :: string FiltersList) \<noteq> None"
    by (simp add: filters_init)
  have other: "NopFilter \<notin> fst ` set [(SampleFilter, Some ''sample plugin'')]"
    by (simp add: SampleFilter_def NopFilter_def)
  from alloc other Get_after_Register [OF alloc other, of "Some ''nop plugin''"]
  show ?thesis by blast
qed

text \<open>
  C7. For any list of names (duplicates allowed) and every name \<open>n\<close> in it,
  \<open>FilterFromName\<close> returns, with a \<open>nil\<close> error, the smallest index whose entry
  equals \<open>n\<close> byte for byte.
\<close>

theorem FilterFromName_first_match:
  assumes "n \<in> set names"
  shows "\<exists>k<length names. FilterFromName names n = (int k, None) \<and> names ! k = n \<and>
           (\<forall>j<k. names ! j \<noteq> n)"
proof -
  let ?k = "length (takeWhile (\<lambda>p. p \<noteq> n) names)"
  have "FilterFromName names n = (int ?k, None)"
    using assms by (simp add: FilterFromName_def FilterFromName_loop_found)
  with first_occurrence [OF assms] show ?thesis by blast
qed

theorem FilterFromName_first_match_witness:
  "''sample'' \<in> set [''nop'', ''sample'', ''Sample'', ''sample''] \<and>
   FilterFromName [''nop'', ''sample'', ''Sample'', ''sample''] ''sample'' = (1, None) \<and>
   FilterFromName [''nop'', ''sample'', ''Sample'', ''sample''] ''Sample'' = (2, None)"
proof -
  let ?names = "[''nop'', ''sample'', ''Sample'', ''sample'']"
  have mem: "''sample'' \<in> set ?names" by simp
  from FilterFromName_first_match [OF mem] obtain k where
    k: "k < length ?names" "FilterFromName ?names ''sample'' = (int k, None)"
      "?names ! k = ''sample''" "\<forall>j<k. ?names ! j \<noteq> ''sample''"
    by blast
  have "\<not> 1 < k" using k(4) by (auto dest: spec [of _ 1])
  moreover have "k \<noteq> 0"
  proof
    assume "k = 0"
    with k(3) show False by simp
  qed
  ultimately have "k = 1" by simp
  with k(2) have "FilterFromName ?names ''sample'' = (1, None)" by simp
  moreover have "FilterFromName ?names ''Sample'' = (2, None)"
    by (simp add: FilterFromName_def)
  ultimately show ?thesis using mem by blast
qed

text \<open>
  C8. With \<open>FilterPluginNames = ["nop", "sample"]\<close>: \<open>FilterFromName("sample")\<close>
  returns \<open>1\<close> and a \<open>nil\<close> error, \<open>Filter(1).String()\<close> is \<open>"sample"\<close>,
  \<open>Filter(99).String()\<close> is \<open>"impossible"\<close>, and \<open>FilterFromName("bogus")\<close> returns an
  error whose message contains \<open>"bogus"\<close>.
\<close>

theorem scenario_nop_sample:
  "FilterPluginNames = [''nop'', ''sample''] \<and>
   FilterFromName FilterPluginNames ''sample'' = (1, None) \<and>
   Filter_String FilterPluginNames 1 = Inr ''sample'' \<and>
   Filter_String FilterPluginNames 99 = Inr ''impossible'' \<and>
   (\<exists>f msg. FilterFromName FilterPluginNames ''bogus'' = (f, Some (Errorf msg)) \<and>
      sublist ''bogus'' msg)"
proof (intro conjI)
  show "FilterPluginNames = [''nop'', ''sample'']"
    by (rule FilterPluginNames_def)
  show "FilterFromName FilterPluginNames ''sample'' = (1, None)"
    by (simp add: FilterFromName_def FilterPluginNames_def)
  show "Filter_String FilterPluginNames 1 = Inr ''sample''"
    by (simp add: Filter_String_def index_def FilterPluginNames_def)
  show "Filter_String FilterPluginNames 99 = Inr ''impossible''"
    by (simp add: Filter_String_def FilterPluginNames_def)
  have "FilterFromName FilterPluginNames ''bogus'' =
      (- 1, Some (Errorf (''No filter named '' @ ''bogus'')))"
    by (rule FilterFromName_absent) (simp add: FilterPluginNames_def)
  moreover have "sublist ''bogus'' (''No filter named '' @ ''bogus'')"
    by (rule sublist_append_leftI)
  ultimately show "\<exists>f msg. FilterFromName FilterPluginNames ''bogus'' = (f, Some (Errorf msg)) \<and>
      sublist ''bogus'' msg"
    by blast
qed

text \<open>
  C9. On a registry whose map is allocated, \<open>Register(id, p)\<close> returns, and for
  every identifier \<open>id'\<close> other than \<open>id\<close>, \<open>Get(id')\<close> returns afterwards what it
  returned before.
\<close>

theorem Register_frame:
  assumes "filters fl \<noteq> None" and "j \<noteq> i"
  shows "\<exists>fl'. Register fl i p = Inr fl' \<and> Get fl' j = Get fl j"
  using Register_Get [OF assms(1), of i p] assms(2) by blast

theorem Register_frame_witness:
  "Register (init ()) NopFilter (Some ''nop plugin'') =
     Inr \<lparr>filters = Some [NopFilter \<mapsto> Some ''nop plugin'']\<rparr> \<and>
   filters \<lparr>filters = Some [NopFilter \<mapsto> Some ''nop plugin'']\<rparr> \<noteq> None \<and>
   NopFilter \<noteq> SampleFilter \<and>
   Get \<lparr>filters = Some [NopFilter \<mapsto> Some ''nop plugin'']\<rparr> NopFilter =
     Some ''nop plugin'' \<and>
   (\<exists>fl'. Register \<lparr>filters = Some [NopFilter \<mapsto> Some ''nop plugin'']\<rparr> SampleFilter
            (Some ''sample plugin'') = Inr fl' \<and>
      Get fl' NopFilter = Some ''nop plugin'' \<and>
      Get fl' SampleFilter = Some ''sample plugin'')"
proof -
  let ?fl = "\<lparr>filters = Some [NopFilter \<mapsto> Some ''nop plugin'']\<rparr>"
  have reached: "Register (init ()) NopFilter (Some ''nop plugin'') = Inr ?fl"
    by (simp add: Register_def init_def)
  have alloc: "filters ?fl \<noteq> None"
    by simp
  have other: "NopFilter \<noteq> SampleFilter"
    by (simp add: SampleFilter_def NopFilter_def)
  have bound: "Get ?fl NopFilter = Some ''nop plugin''"
    by (simp add: Get_def)
  from Register_frame [OF alloc other, of "Some ''sample plugin''"] obtain fl' where
    fl': "Register ?fl SampleFilter (Some ''sample plugin'') = Inr fl'"
      "Get fl' NopFilter = Get ?fl NopFilter"
    by blast
  from fl'(1) have "Get fl' SampleFilter = Some ''sample plugin''"
    by (auto simp: Register_def Get_def)
  with fl' bound have "\<exists>fl'. Register ?fl SampleFilter (Some ''sample plugin'') = Inr fl' \<and>
      Get fl' NopFilter = Some ''nop plugin'' \<and>
      Get fl' SampleFilter = Some ''sample plugin''"
    by auto
  with reached alloc other bound show ?thesis by blast
qed

text \<open>
  C10. For a name that is not in \<open>FilterPluginNames\<close>, \<open>FilterFromName\<close> returns the
  identifier \<open>-1\<close> together with a non-\<open>nil\<close> error; \<open>-1\<close> is outside
  \<open>[0, len(FilterPluginNames))\<close>, and \<open>String\<close> of the returned identifier is
  \<open>"impossible"\<close>, which is none of the names in \<open>FilterPluginNames\<close>.
\<close>

theorem FilterFromName_failure_identifier:
  assumes "n \<notin> set FilterPluginNames"
  shows "fst (FilterFromName FilterPluginNames n) = - 1 \<and>
         snd (FilterFromName FilterPluginNames n) \<noteq> None \<and>
         \<not> (0 \<le> fst (FilterFromName FilterPluginNames n) \<and>
            fst (FilterFromName FilterPluginNames n) < int (length FilterPluginNames)) \<and>
         Filter_String FilterPluginNames (fst (FilterFromName FilterPluginNames n)) =
           Inr ''impossible'' \<and>
         ''impossible'' \<notin> set FilterPluginNames"
  using FilterFromName_absent [OF assms] Filter_String_invalid [of "- 1" FilterPluginNames]
    impossible_no_name
  by simp

theorem FilterFromName_failure_identifier_witness:
  "''Nop'' \<notin> set FilterPluginNames \<and>
   FilterFromName FilterPluginNames ''Nop'' = (- 1, Some (Errorf ''No filter named Nop'')) \<and>
   Filter_String FilterPluginNames (fst (FilterFromName FilterPluginNames ''Nop'')) =
     Inr ''impossible''"
proof -
  have absent: "''Nop'' \<notin> set FilterPluginNames"
    by (simp add: FilterPluginNames_def)
  have "FilterFromName FilterPluginNames ''Nop'' = (- 1, Some (Errorf ''No filter named Nop''))"
    by (simp add: FilterFromName_def FilterPluginNames_def)
  with absent FilterFromName_failure_identifier [OF absent] show ?thesis by blast
qed

end
